theory Spec2Isabelle
  imports Complex_Main "HOL-Library.AList" "HOL-Library.Sublist"
begin

section \<open>Statement text\<close>

text \<open>
  This theory embeds the query classifier, the danger assessor, the connection manager
  and the query executor of the Oracle MCP server (\<open>query-executor.ts\<close>,
  \<open>connection-manager.ts\<close>, \<open>types.ts\<close>) and proves properties of them. An \<open>async\<close>
  method is a function from the state before the call to its result and the state
  after it, run to completion; a rejected promise or a thrown \<open>Error\<close> is the result
  \<open>Inl message\<close>. Writing to the console is left out.

  The statements handled by the server are JavaScript strings. They are modelled as
  \<^typ>\<open>string\<close>, a list of 8-bit characters, read as the UTF-8 bytes of the text. Every
  keyword and every pattern of the program is ASCII, and the library functions
  \<open>trim\<close>, \<open>toUpperCase\<close> and the classes \<open>\s\<close>, \<open>\w\<close> are modelled on the ASCII
  range: a byte from 128 on is neither white space nor a letter and is left as it is by
  \<open>toUpperCase\<close>. So the model is the program on ASCII statements; the white space
  beyond ASCII that JavaScript also trims, and the few letters beyond ASCII whose upper
  case is an ASCII letter, are not modelled. The messages of the program that hold a
  pictograph carry its UTF-8 bytes.

  A JavaScript number that counts rows or milliseconds is an \<^typ>\<open>int\<close> (the row cap of
  the tool is declared an integer) that stands for the double of that value, and a sum
  is rounded to a double (\<open>roundDouble\<close> below); the elapsed time is the exact quotient,
  a \<^typ>\<open>real\<close>.

  The names are those of the source, but for the ones that Isabelle does not allow
  twice or at all: \<open>includesStr\<close> is \<open>String.prototype.includes\<close>, \<open>configConnections\<close>
  is the field \<open>connections\<close> of \<open>ServerConfig\<close>, \<open>resultRows\<close> is the field \<open>rows\<close> of
  the driver's \<open>Result\<close>, \<open>executorDefaultMaxRows\<close> is the field \<open>defaultMaxRows\<close> of
  \<open>QueryExecutor\<close>, the methods of the driver carry the prefix \<open>drv\<close>, and the
  parameters \<open>maxRows\<close> and \<open>commit\<close> of the executor are \<open>cap\<close> and \<open>doCommit\<close>.
\<close>

definition isSpace :: "char \<Rightarrow> bool" where
  "isSpace c = (let n = (of_char c :: nat) in (9 \<le> n \<and> n \<le> 13) \<or> n = 32)"

definition isWordChar :: "char \<Rightarrow> bool" where
  "isWordChar c = (let n = (of_char c :: nat) in
     (48 \<le> n \<and> n \<le> 57) \<or> (65 \<le> n \<and> n \<le> 90) \<or> n = 95 \<or> (97 \<le> n \<and> n \<le> 122))"

definition upperChar :: "char \<Rightarrow> char" where
  "upperChar c = (let n = (of_char c :: nat) in
     if 97 \<le> n \<and> n \<le> 122 then char_of (n - 32) else c)"

definition toUpperCase :: "string \<Rightarrow> string" where
  "toUpperCase s = map upperChar s"

definition trim :: "string \<Rightarrow> string" where
  "trim s = rev (dropWhile isSpace (rev (dropWhile isSpace s)))"

fun startsWith :: "string \<Rightarrow> string \<Rightarrow> bool" where
  "startsWith s [] = True"
| "startsWith [] (p # ps) = False"
| "startsWith (c # cs) (p # ps) = (c = p \<and> startsWith cs ps)"

fun includesStr :: "string \<Rightarrow> string \<Rightarrow> bool" where
  "includesStr [] p = startsWith [] p"
| "includesStr (c # cs) p = (startsWith (c # cs) p \<or> includesStr cs p)"

fun join :: "string list \<Rightarrow> string \<Rightarrow> string" where
  "join [] sep = []"
| "join [x] sep = x"
| "join (x # y # ys) sep = x @ sep @ join (y # ys) sep"

text \<open>Decimal notation of an integer, as a template literal prints a number.\<close>

function showNat :: "nat \<Rightarrow> string" where
  "showNat n = (if n < 10 then [char_of (48 + n)]
                else showNat (n div 10) @ [char_of (48 + n mod 10)])"
  by pat_completeness auto
termination
  by (relation "measure id") auto

declare showNat.simps [simp del]

definition showInt :: "int \<Rightarrow> string" where
  "showInt i = (if i < 0 then CHR ''-'' # showNat (nat (- i)) else showNat (nat i))"

text \<open>
  A JavaScript number is a double. An integer of the model stands for the double of
  that value, and the sum of two numbers is the double nearest to the exact sum, the
  one with the even mantissa at a tie: \<open>roundDouble\<close>. Every integer up to \<open>2^53\<close> in
  absolute value is a double and is its own rounding; beyond it the doubles are
  \<open>2^e\<close> apart, where the number has \<open>53 + e\<close> binary digits. (From \<open>2^1024\<close> on there
  is no finite double; such numbers are outside the model.)
\<close>

function bitLength :: "int \<Rightarrow> nat" where
  "bitLength n = (if n \<le> 0 then 0 else Suc (bitLength (n div 2)))"
  by pat_completeness auto
termination
  by (relation "measure nat") auto

declare bitLength.simps [simp del]

definition roundDouble :: "int \<Rightarrow> int" where
  "roundDouble m =
     (let a = \<bar>m\<bar> in
      if a \<le> 2 ^ 53 then m
      else (let q = 2 ^ (bitLength a - 53);
                k = a div q;
                r = a mod q;
                k' = (if q < 2 * r \<or> (2 * r = q \<and> odd k) then k + 1 else k)
            in sgn m * (k' * q)))"

section \<open>Regular expressions\<close>

text \<open>
  The patterns of the program use literals, \<open>\b\<close>, \<open>\s+\<close>, \<open>\w+\<close>, alternatives,
  optional groups and capture groups, under the flag \<open>i\<close>. The matcher keeps the
  character before the current position (for \<open>\b\<close>), the rest of the text and the
  captures, and returns the states it can reach in the order in which a backtracking
  matcher tries them, so the head of the list is the match JavaScript reports.
\<close>

datatype cclass = Space | Word

datatype regex =
    Lit string
  | WordBoundary
  | Plus cclass
  | Seq regex regex
  | Alt regex regex
  | Opt regex
  | Group nat regex

type_synonym mstate = "char option \<times> string \<times> (nat \<times> string) list"

fun inClass :: "cclass \<Rightarrow> char \<Rightarrow> bool" where
  "inClass Space c = isSpace c"
| "inClass Word c = isWordChar c"

fun isWordAt :: "char option \<Rightarrow> bool" where
  "isWordAt None = False"
| "isWordAt (Some c) = isWordChar c"

fun litMatch :: "string \<Rightarrow> char option \<Rightarrow> string \<Rightarrow> (char option \<times> string) option" where
  "litMatch [] prev rest = Some (prev, rest)"
| "litMatch (p # ps) prev [] = None"
| "litMatch (p # ps) prev (c # cs) =
     (if upperChar p = upperChar c then litMatch ps (Some c) cs else None)"

fun plusMatch :: "cclass \<Rightarrow> string \<Rightarrow> (char option \<times> string) list" where
  "plusMatch cl [] = []"
| "plusMatch cl (c # cs) = (if inClass cl c then plusMatch cl cs @ [(Some c, cs)] else [])"

fun run :: "regex \<Rightarrow> mstate \<Rightarrow> mstate list" where
  "run (Lit p) (prev, rest, caps) =
     (case litMatch p prev rest of None \<Rightarrow> [] | Some (prev', rest') \<Rightarrow> [(prev', rest', caps)])"
| "run WordBoundary (prev, rest, caps) =
     (if isWordAt prev \<noteq> isWordAt (case rest of [] \<Rightarrow> None | c # cs \<Rightarrow> Some c)
      then [(prev, rest, caps)] else [])"
| "run (Plus cl) (prev, rest, caps) = map (\<lambda>(prev', rest'). (prev', rest', caps)) (plusMatch cl rest)"
| "run (Seq a b) st = concat (map (run b) (run a st))"
| "run (Alt a b) st = run a st @ run b st"
| "run (Opt a) st = run a st @ [st]"
| "run (Group k a) (prev, rest, caps) =
     map (\<lambda>(prev', rest', caps').
            (prev', rest', AList.update k (take (length rest - length rest') rest) caps'))
         (run a (prev, rest, caps))"

fun execFrom :: "regex \<Rightarrow> char option \<Rightarrow> string \<Rightarrow> mstate option" where
  "execFrom r prev [] = (case run r (prev, [], []) of [] \<Rightarrow> None | st # sts \<Rightarrow> Some st)"
| "execFrom r prev (c # cs) =
     (case run r (prev, c # cs, []) of [] \<Rightarrow> execFrom r (Some c) cs | st # sts \<Rightarrow> Some st)"

definition exec :: "regex \<Rightarrow> string \<Rightarrow> (nat \<times> string) list option" where
  "exec r s = map_option (\<lambda>(prev, rest, caps). caps) (execFrom r None s)"

definition test :: "regex \<Rightarrow> string \<Rightarrow> bool" where
  "test r s = (exec r s \<noteq> None)"


fun alts :: "string list \<Rightarrow> regex" where
  "alts [] = Lit []"
| "alts [x] = Lit x"
| "alts (x # y # ys) = Alt (Lit x) (alts (y # ys))"

fun seqs :: "regex list \<Rightarrow> regex" where
  "seqs [] = Lit []"
| "seqs [r] = r"
| "seqs (r # q # rs) = Seq r (seqs (q # rs))"

section \<open>Types\<close>

datatype ConnectionMode = READONLY | READWRITE

datatype OracleClientMode = THIN | THICK

datatype QueryType = SELECT | INSERT | UPDATE | DELETE | DDL | PLSQL | OTHER

datatype DangerLevel = SAFE | MODERATE | HIGH | CRITICAL

section \<open>Query type detection\<close>

definition DANGEROUS_drop :: regex where
  "DANGEROUS_drop = seqs [WordBoundary, Lit ''DROP'', Plus Space,
     Group 1 (alts [''TABLE'', ''INDEX'', ''VIEW'', ''SEQUENCE'', ''PROCEDURE'', ''FUNCTION'',
                    ''PACKAGE'', ''TRIGGER'', ''SYNONYM'', ''DATABASE'', ''USER'', ''TABLESPACE'']),
     WordBoundary]"

definition DANGEROUS_truncate :: regex where
  "DANGEROUS_truncate = seqs [WordBoundary, Lit ''TRUNCATE'', Plus Space, Lit ''TABLE'', WordBoundary]"

definition DANGEROUS_alterSystem :: regex where
  "DANGEROUS_alterSystem = seqs [WordBoundary, Lit ''ALTER'', Plus Space, Lit ''SYSTEM'', WordBoundary]"

definition DANGEROUS_grant :: regex where
  "DANGEROUS_grant = seqs [WordBoundary, Lit ''GRANT'', Plus Space]"

definition DANGEROUS_revoke :: regex where
  "DANGEROUS_revoke = seqs [WordBoundary, Lit ''REVOKE'', Plus Space]"

definition detectQueryType :: "string \<Rightarrow> QueryType" where
  "detectQueryType sql =
     (let sqlStripped = toUpperCase (trim sql) in
      if startsWith sqlStripped ''SELECT'' then SELECT
      else if startsWith sqlStripped ''INSERT'' then INSERT
      else if startsWith sqlStripped ''UPDATE'' then UPDATE
      else if startsWith sqlStripped ''DELETE'' then DELETE
      else if list_ex (\<lambda>kw. startsWith sqlStripped kw)
                [''CREATE'', ''ALTER'', ''DROP'', ''TRUNCATE'', ''GRANT'', ''REVOKE''] then DDL
      else if list_ex (\<lambda>kw. startsWith sqlStripped kw) [''BEGIN'', ''DECLARE'']
              \<or> includesStr sqlStripped ''CREATE OR REPLACE'' then PLSQL
      else OTHER)"

definition warnSign :: string where
  "warnSign = [CHR 0xE2, CHR 0x9A, CHR 0xA0, CHR 0xEF, CHR 0xB8, CHR 0x8F]"

definition infoSign :: string where
  "infoSign = [CHR 0xE2, CHR 0x84, CHR 0xB9, CHR 0xEF, CHR 0xB8, CHR 0x8F]"

definition assessDangerLevel :: "string \<Rightarrow> QueryType \<Rightarrow> DangerLevel \<times> string list" where
  "assessDangerLevel sql queryType =
     (if queryType = SELECT then (SAFE, [])
      else if test DANGEROUS_drop sql then
        (CRITICAL, [warnSign @ '' DROP statement detected - this will permanently remove objects''])
      else if test DANGEROUS_truncate sql then
        (CRITICAL, [warnSign @ '' TRUNCATE statement detected - this will remove all data from the table''])
      else if test DANGEROUS_alterSystem sql then
        (CRITICAL, [warnSign @ '' ALTER SYSTEM detected - this modifies database configuration''])
      else if queryType = DELETE \<and> \<not> includesStr (toUpperCase sql) ''WHERE'' then
        (HIGH, [warnSign @ '' DELETE without WHERE clause - this will delete ALL rows in the table''])
      else if queryType = UPDATE \<and> \<not> includesStr (toUpperCase sql) ''WHERE'' then
        (HIGH, [warnSign @ '' UPDATE without WHERE clause - this will update ALL rows in the table''])
      else if queryType = DDL then
        (HIGH, [infoSign @ '' DDL statement - schema changes will be made''])
      else if queryType \<in> set [INSERT, UPDATE, DELETE] then (MODERATE, [])
      else (SAFE, []))"

section \<open>Configuration and results\<close>

record ConnectionConfig =
  name :: string
  username :: string
  mode :: ConnectionMode
  host :: "string option"
  port :: "int option"
  serviceName :: "string option"
  sid :: "string option"
  connectionString :: "string option"
  password :: "string option"
  passwordEnv :: "string option"

record ServerConfig =
  oracleClientMode :: OracleClientMode
  oracleClientPath :: "string option"
  defaultMaxRows :: int
  queryTimeout :: int
  configConnections :: "ConnectionConfig list"

text \<open>A value of type \<open>unknown\<close>: a cell of a row or a bind value.\<close>

datatype jsval = JUndefined | JNull | JNum int | JStr string

fun jsTruthy :: "jsval \<Rightarrow> bool" where
  "jsTruthy JUndefined = False"
| "jsTruthy JNull = False"
| "jsTruthy (JNum n) = (n \<noteq> 0)"
| "jsTruthy (JStr s) = (s \<noteq> [])"

fun jsToString :: "jsval \<Rightarrow> string" where
  "jsToString JUndefined = ''undefined''"
| "jsToString JNull = ''null''"
| "jsToString (JNum n) = showInt n"
| "jsToString (JStr s) = s"

fun cell :: "jsval list \<Rightarrow> nat \<Rightarrow> jsval" where
  "cell [] i = JUndefined"
| "cell (v # vs) 0 = v"
| "cell (v # vs) (Suc i) = cell vs i"

record QueryResult =
  success :: bool
  queryType :: QueryType
  message :: string
  columns :: "string list option"
  rows :: "jsval list list option"
  rowCount :: "nat option"
  affectedRows :: "int option"
  executionTime :: "real option"
  warnings :: "string list option"
  error :: "string option"

definition result :: "bool \<Rightarrow> QueryType \<Rightarrow> string \<Rightarrow> QueryResult" where
  "result ok qt msg = \<lparr>success = ok, queryType = qt, message = msg, columns = None, rows = None,
     rowCount = None, affectedRows = None, executionTime = None, warnings = None, error = None\<rparr>"

text \<open>\<open>warnings.length > 0 ? warnings : undefined\<close>\<close>

definition nonEmptyList :: "string list \<Rightarrow> string list option" where
  "nonEmptyList ws = (if ws = [] then None else Some ws)"

text \<open>The truthy value of an optional string: an empty string counts as absent.\<close>

fun truthyStr :: "string option \<Rightarrow> string option" where
  "truthyStr None = None"
| "truthyStr (Some s) = (if s = [] then None else Some s)"

definition apos :: string where
  "apos = [CHR 0x27]"

section \<open>The database driver\<close>

text \<open>
  The driver and the process environment are outside the program. They are a parameter
  of the model: a record of functions over a state of the outside world \<open>'w\<close>, each call
  returning either the message of the exception it throws (\<open>Inl\<close>) or its value
  (\<open>Inr\<close>), and the next state of the world. The state of the program keeps a log of
  the driver calls made, so that "the database is not invoked" is a statement about
  the log.
\<close>

type_synonym Connection = nat

type_synonym binds = "(string \<times> jsval) list"

datatype OutFormat = OUT_FORMAT_ARRAY | OUT_FORMAT_OBJECT

record ExecuteOptions =
  autoCommit :: "bool option"
  maxRows :: "int option"
  outFormat :: "OutFormat option"

record Result =
  resultRows :: "jsval list list option"
  rowsAffected :: "int option"
  metaData :: "string list option"

datatype DbCall =
    InitOracleClient "string option"
  | GetConnection string string string
  | Ping Connection
  | Execute Connection string "binds option" "ExecuteOptions option"
  | Commit Connection
  | Rollback Connection
  | Close Connection

record 'w Driver =
  drvInitOracleClient :: "string option \<Rightarrow> 'w \<Rightarrow> (string + unit) \<times> 'w"
  drvGetConnection :: "string \<Rightarrow> string \<Rightarrow> string \<Rightarrow> 'w \<Rightarrow> (string + Connection) \<times> 'w"
  drvPing :: "Connection \<Rightarrow> 'w \<Rightarrow> (string + unit) \<times> 'w"
  drvExecute :: "Connection \<Rightarrow> string \<Rightarrow> binds option \<Rightarrow> ExecuteOptions option \<Rightarrow> 'w
                 \<Rightarrow> (string + Result) \<times> 'w"
  drvCommit :: "Connection \<Rightarrow> 'w \<Rightarrow> (string + unit) \<times> 'w"
  drvRollback :: "Connection \<Rightarrow> 'w \<Rightarrow> (string + unit) \<times> 'w"
  drvClose :: "Connection \<Rightarrow> 'w \<Rightarrow> (string + unit) \<times> 'w"
  processEnv :: "'w \<Rightarrow> string \<Rightarrow> string option"
  dateNow :: "'w \<Rightarrow> int"

text \<open>
  The state: the fields of the class \<open>ConnectionManager\<close> (the two \<open>Map\<close>s as
  association lists in insertion order), the outside world and the log of driver calls.
\<close>

record 'w ConnectionManager =
  config :: ServerConfig
  connections :: "(string \<times> Connection) list"
  connectionConfigs :: "(string \<times> ConnectionConfig) list"
  initialized :: bool
  world :: 'w
  calls :: "DbCall list"

definition invoke :: "DbCall \<Rightarrow> ('w \<Rightarrow> (string + 'a) \<times> 'w) \<Rightarrow> 'w ConnectionManager
    \<Rightarrow> (string + 'a) \<times> 'w ConnectionManager" where
  "invoke ev f st = (case f (world st) of (r, w) \<Rightarrow> (r, st\<lparr>world := w, calls := calls st @ [ev]\<rparr>))"

section \<open>Connection manager\<close>

definition getPassword :: "'w Driver \<Rightarrow> 'w \<Rightarrow> ConnectionConfig \<Rightarrow> string + string" where
  "getPassword drv w cfg =
     (case truthyStr (password cfg) of
        Some p \<Rightarrow> Inr p
      | None \<Rightarrow>
         (case truthyStr (passwordEnv cfg) of
            Some v \<Rightarrow>
              (case truthyStr (processEnv drv w v) of
                 Some pwd \<Rightarrow> Inr pwd
               | None \<Rightarrow> Inl (''Environment variable '' @ apos @ v @ apos
                              @ '' not set for connection '' @ apos @ name cfg @ apos))
          | None \<Rightarrow> Inl (''No password configured for connection '' @ apos @ name cfg @ apos)))"

definition portOrDefault :: "ConnectionConfig \<Rightarrow> int" where
  "portOrDefault cfg = (case port cfg of None \<Rightarrow> 1521 | Some p \<Rightarrow> if p = 0 then 1521 else p)"

definition getDsn :: "ConnectionConfig \<Rightarrow> string + string" where
  "getDsn cfg =
     (case truthyStr (connectionString cfg) of
        Some cs \<Rightarrow> Inr cs
      | None \<Rightarrow>
         (case (truthyStr (host cfg), truthyStr (serviceName cfg), truthyStr (sid cfg)) of
            (Some h, Some sn, _) \<Rightarrow> Inr (h @ '':'' @ showInt (portOrDefault cfg) @ ''/'' @ sn)
          | (Some h, None, Some sd) \<Rightarrow>
              Inr (''(DESCRIPTION=(ADDRESS=(PROTOCOL=TCP)(HOST='' @ h @ '')(PORT=''
                   @ showInt (portOrDefault cfg) @ ''))(CONNECT_DATA=(SID='' @ sd @ '')))'')
          | _ \<Rightarrow> Inl (''Connection '' @ apos @ name cfg @ apos
                      @ '' requires either connectionString, or host with serviceName/sid'')))"

text \<open>The constructor: the connections of the configuration are indexed by name.\<close>

definition newConnectionManager :: "ServerConfig \<Rightarrow> 'w \<Rightarrow> 'w ConnectionManager" where
  "newConnectionManager c w =
     \<lparr>config = c, connections = [],
      connectionConfigs = foldl (\<lambda>m cc. AList.update (name cc) cc m) [] (configConnections c),
      initialized = False, world = w, calls = []\<rparr>"

definition getServerConfig :: "'w ConnectionManager \<Rightarrow> ServerConfig" where
  "getServerConfig st = config st"

definition initialize :: "'w Driver \<Rightarrow> 'w ConnectionManager \<Rightarrow> (string + unit) \<times> 'w ConnectionManager" where
  "initialize drv st =
     (if initialized st then (Inr (), st)
      else if oracleClientMode (config st) = THICK then
        (let libDir = truthyStr (oracleClientPath (config st)) in
         case invoke (InitOracleClient libDir) (drvInitOracleClient drv libDir) st of
           (Inl e, s1) \<Rightarrow> (Inl e, s1)
         | (Inr u, s1) \<Rightarrow> (Inr (), s1\<lparr>initialized := True\<rparr>))
      else (Inr (), st\<lparr>initialized := True\<rparr>))"

definition getConnectionConfig :: "'w ConnectionManager \<Rightarrow> string \<Rightarrow> string + ConnectionConfig" where
  "getConnectionConfig st nm =
     (case map_of (connectionConfigs st) nm of
        None \<Rightarrow>
          (let keys = join (map fst (connectionConfigs st)) '', '';
               available = (if keys = [] then ''none'' else keys)
           in Inl (''Connection '' @ apos @ nm @ apos @ '' not found. Available connections: ''
                   @ available))
      | Some cfg \<Rightarrow> Inr cfg)"

text \<open>The part of \<open>connect\<close> after the cached connection was found absent or stale.\<close>

definition openConnection :: "'w Driver \<Rightarrow> string \<Rightarrow> 'w ConnectionManager
    \<Rightarrow> (string + Connection) \<times> 'w ConnectionManager" where
  "openConnection drv nm st =
     (case getConnectionConfig st nm of
        Inl e \<Rightarrow> (Inl e, st)
      | Inr cfg \<Rightarrow>
         (case getDsn cfg of
            Inl e \<Rightarrow> (Inl e, st)
          | Inr dsn \<Rightarrow>
             (case getPassword drv (world st) cfg of
                Inl e \<Rightarrow> (Inl e, st)
              | Inr pwd \<Rightarrow>
                 (case invoke (GetConnection (username cfg) pwd dsn)
                         (drvGetConnection drv (username cfg) pwd dsn) st of
                    (Inl e, s1) \<Rightarrow> (Inl e, s1)
                  | (Inr c, s1) \<Rightarrow>
                     (if mode cfg = READONLY then
                        (case invoke (Execute c ''SET TRANSACTION READ ONLY'' None None)
                                (drvExecute drv c ''SET TRANSACTION READ ONLY'' None None) s1 of
                           (Inl e, s2) \<Rightarrow> (Inl e, s2)
                         | (Inr r, s2) \<Rightarrow>
                             (Inr c, s2\<lparr>connections := AList.update nm c (connections s2)\<rparr>))
                      else (Inr c, s1\<lparr>connections := AList.update nm c (connections s1)\<rparr>))))))"

definition connect :: "'w Driver \<Rightarrow> string \<Rightarrow> 'w ConnectionManager
    \<Rightarrow> (string + Connection) \<times> 'w ConnectionManager" where
  "connect drv nm st =
     (case initialize drv st of
        (Inl e, s1) \<Rightarrow> (Inl e, s1)
      | (Inr u, s1) \<Rightarrow>
         (case map_of (connections s1) nm of
            Some existing \<Rightarrow>
              (case invoke (Ping existing) (drvPing drv existing) s1 of
                 (Inr v, s2) \<Rightarrow> (Inr existing, s2)
               | (Inl e, s2) \<Rightarrow>
                   openConnection drv nm (s2\<lparr>connections := AList.delete nm (connections s2)\<rparr>))
          | None \<Rightarrow> openConnection drv nm s1))"

definition disconnect :: "'w Driver \<Rightarrow> string \<Rightarrow> 'w ConnectionManager
    \<Rightarrow> (string + bool) \<times> 'w ConnectionManager" where
  "disconnect drv nm st =
     (case map_of (connections st) nm of
        Some c \<Rightarrow>
          (case invoke (Close c) (drvClose drv c) st of
             (r, s1) \<Rightarrow> (Inr True, s1\<lparr>connections := AList.delete nm (connections s1)\<rparr>))
      | None \<Rightarrow> (Inr False, st))"

fun disconnectLoop :: "'w Driver \<Rightarrow> string list \<Rightarrow> nat \<Rightarrow> 'w ConnectionManager
    \<Rightarrow> (string + nat) \<times> 'w ConnectionManager" where
  "disconnectLoop drv [] count st = (Inr count, st)"
| "disconnectLoop drv (nm # nms) count st =
     (case disconnect drv nm st of
        (Inl e, s1) \<Rightarrow> (Inl e, s1)
      | (Inr b, s1) \<Rightarrow> disconnectLoop drv nms (if b then count + 1 else count) s1)"

definition disconnectAll :: "'w Driver \<Rightarrow> 'w ConnectionManager
    \<Rightarrow> (string + nat) \<times> 'w ConnectionManager" where
  "disconnectAll drv st = disconnectLoop drv (map fst (connections st)) 0 st"

definition isConnected :: "'w Driver \<Rightarrow> string \<Rightarrow> 'w ConnectionManager
    \<Rightarrow> (string + bool) \<times> 'w ConnectionManager" where
  "isConnected drv nm st =
     (case map_of (connections st) nm of
        None \<Rightarrow> (Inr False, st)
      | Some c \<Rightarrow>
          (case invoke (Ping c) (drvPing drv c) st of
             (Inr u, s1) \<Rightarrow> (Inr True, s1)
           | (Inl e, s1) \<Rightarrow> (Inr False, s1\<lparr>connections := AList.delete nm (connections s1)\<rparr>)))"

text \<open>
  \<open>this.connections.get(name)!\<close> after \<open>isConnected\<close> returned true: the entry is
  there (lemma \<open>getConnection_cached\<close> below), so the last branch is never taken.
\<close>

definition getConnection :: "'w Driver \<Rightarrow> string \<Rightarrow> 'w ConnectionManager
    \<Rightarrow> (string + Connection) \<times> 'w ConnectionManager" where
  "getConnection drv nm st =
     (case isConnected drv nm st of
        (Inl e, s1) \<Rightarrow> (Inl e, s1)
      | (Inr False, s1) \<Rightarrow> connect drv nm s1
      | (Inr True, s1) \<Rightarrow>
          (case map_of (connections s1) nm of
             Some c \<Rightarrow> (Inr c, s1)
           | None \<Rightarrow> (Inl ''undefined'', s1)))"

section \<open>Query executor\<close>

text \<open>The class \<open>QueryExecutor\<close>: its constructor copies the default row cap.\<close>

record QueryExecutor =
  executorDefaultMaxRows :: int

definition newQueryExecutor :: "'w ConnectionManager \<Rightarrow> QueryExecutor" where
  "newQueryExecutor st = \<lparr>executorDefaultMaxRows = defaultMaxRows (getServerConfig st)\<rparr>"

text \<open>\<open>maxRows || this.defaultMaxRows\<close>: an absent cap and the cap 0 are falsy.\<close>

definition effectiveMaxRows :: "QueryExecutor \<Rightarrow> int option \<Rightarrow> int" where
  "effectiveMaxRows this cap =
     (case cap of None \<Rightarrow> executorDefaultMaxRows this
      | Some n \<Rightarrow> if n = 0 then executorDefaultMaxRows this else n)"

text \<open>\<open>rows.slice(0, n)\<close>: a negative end counts from the end of the array.\<close>

definition slice0 :: "'a list \<Rightarrow> int \<Rightarrow> 'a list" where
  "slice0 xs n = (if n < 0 then take (nat (int (length xs) + n)) xs else take (nat n) xs)"

definition elapsed :: "int \<Rightarrow> int \<Rightarrow> real" where
  "elapsed startTime endTime = real_of_int (endTime - startTime) / 1000"

definition queryFailed :: "QueryType \<Rightarrow> string \<Rightarrow> QueryResult" where
  "queryFailed qt e = (result False qt (''Query failed: '' @ e))\<lparr>error := Some e\<rparr>"

definition executeQuery :: "QueryExecutor \<Rightarrow> 'w Driver \<Rightarrow> string \<Rightarrow> string \<Rightarrow> int option
    \<Rightarrow> binds option \<Rightarrow> 'w ConnectionManager \<Rightarrow> (string + QueryResult) \<times> 'w ConnectionManager" where
  "executeQuery this drv connectionName sql cap params st =
     (let qt = detectQueryType sql in
      if qt \<noteq> SELECT then
        (Inr ((result False qt
                 ''execute_query only supports SELECT statements. Use execute_dml for other operations.'')
               \<lparr>error := Some ''Invalid query type''\<rparr>), st)
      else
        (let n = effectiveMaxRows this cap in
         case getConnection drv connectionName st of
           (Inl e, s1) \<Rightarrow> (Inr (queryFailed qt e), s1)
         | (Inr c, s1) \<Rightarrow>
            (let startTime = dateNow drv (world s1);
                 bindParams = Some (case params of None \<Rightarrow> [] | Some b \<Rightarrow> b);
                 options = Some \<lparr>autoCommit = None, maxRows = Some (roundDouble (n + 1)),
                                 outFormat = Some OUT_FORMAT_ARRAY\<rparr>
             in case invoke (Execute c sql bindParams options)
                       (drvExecute drv c sql bindParams options) s1 of
                  (Inl e, s2) \<Rightarrow> (Inr (queryFailed qt e), s2)
                | (Inr res, s2) \<Rightarrow>
                   (let t = elapsed startTime (dateNow drv (world s2));
                        cols = (case metaData res of None \<Rightarrow> [] | Some md \<Rightarrow> md);
                        rs = (case resultRows res of None \<Rightarrow> [] | Some r \<Rightarrow> r);
                        hasMore = (int (length rs) > n);
                        kept = (if hasMore then slice0 rs n else rs);
                        ws = (if hasMore
                              then [infoSign @ '' Results limited to '' @ showInt n
                                    @ '' rows. More rows available.'']
                              else [])
                    in (Inr ((result True qt (''Query executed successfully. Found ''
                                               @ showNat (length kept) @ '' row(s).''))
                              \<lparr>columns := Some cols, rows := Some kept,
                               rowCount := Some (length kept), executionTime := Some t,
                               warnings := nonEmptyList ws\<rparr>), s2)))))"

definition readOnlyDenied :: "QueryType \<Rightarrow> string \<Rightarrow> QueryResult" where
  "readOnlyDenied qt msg = (result False qt msg)\<lparr>error := Some ''Connection is read-only''\<rparr>"

definition blocked :: "QueryType \<Rightarrow> string list \<Rightarrow> QueryResult" where
  "blocked qt ws = (result False qt (''This operation is blocked for safety. '' @ join ws '' ''))
     \<lparr>error := Some ''Dangerous operation blocked'', warnings := Some ws\<rparr>"

text \<open>
  The \<open>catch\<close> block of \<open>executeDml\<close>: a rollback on a connection acquired again, its
  own failure ignored, then the failure outcome.
\<close>

definition dmlFailed :: "'w Driver \<Rightarrow> string \<Rightarrow> QueryType \<Rightarrow> string list \<Rightarrow> string
    \<Rightarrow> 'w ConnectionManager \<Rightarrow> (string + QueryResult) \<times> 'w ConnectionManager" where
  "dmlFailed drv connectionName qt ws e st =
     (let s' = (case getConnection drv connectionName st of
                  (Inl e', s1) \<Rightarrow> s1
                | (Inr c, s1) \<Rightarrow> snd (invoke (Rollback c) (drvRollback drv c) s1))
      in (Inr ((result False qt (''Statement failed: '' @ e))
                \<lparr>error := Some e, warnings := nonEmptyList ws\<rparr>), s'))"

definition executeDml :: "QueryExecutor \<Rightarrow> 'w Driver \<Rightarrow> string \<Rightarrow> string \<Rightarrow> binds option
    \<Rightarrow> bool \<Rightarrow> 'w ConnectionManager \<Rightarrow> (string + QueryResult) \<times> 'w ConnectionManager" where
  "executeDml this drv connectionName sql params doCommit st =
     (let qt = detectQueryType sql in
      case getConnectionConfig st connectionName of
        Inl e \<Rightarrow> (Inl e, st)
      | Inr cfg \<Rightarrow>
         if mode cfg = READONLY then
           (Inr (readOnlyDenied qt (''Connection '' @ apos @ connectionName @ apos
                   @ '' is configured as READ ONLY. DML operations are not allowed.'')), st)
         else
           (case assessDangerLevel sql qt of
              (dangerLevel, ws) \<Rightarrow>
                if dangerLevel = CRITICAL then (Inr (blocked qt ws), st)
                else
                  (case getConnection drv connectionName st of
                     (Inl e, s1) \<Rightarrow> dmlFailed drv connectionName qt ws e s1
                   | (Inr c, s1) \<Rightarrow>
                      (let startTime = dateNow drv (world s1);
                           bindParams = Some (case params of None \<Rightarrow> [] | Some b \<Rightarrow> b);
                           options = Some \<lparr>autoCommit = Some False, maxRows = None, outFormat = None\<rparr>
                       in case invoke (Execute c sql bindParams options)
                                 (drvExecute drv c sql bindParams options) s1 of
                            (Inl e, s2) \<Rightarrow> dmlFailed drv connectionName qt ws e s2
                          | (Inr res, s2) \<Rightarrow>
                             (let affected = (case rowsAffected res of None \<Rightarrow> 0 | Some k \<Rightarrow> k);
                                  t = elapsed startTime (dateNow drv (world s2));
                                  done = (\<lambda>commitMsg s.
                                    (Inr ((result True qt (''Statement executed successfully. ''
                                             @ showInt affected @ '' row(s) affected. '' @ commitMsg))
                                           \<lparr>affectedRows := Some affected, executionTime := Some t,
                                            warnings := nonEmptyList ws\<rparr>), s))
                              in if doCommit then
                                   (case invoke (Commit c) (drvCommit drv c) s2 of
                                      (Inl e, s3) \<Rightarrow> dmlFailed drv connectionName qt ws e s3
                                    | (Inr u, s3) \<Rightarrow> done ''Changes committed.'' s3)
                                 else done ''Changes NOT committed (auto-commit disabled).'' s2)))))"

definition allowedCreate :: regex where
  "allowedCreate = seqs [WordBoundary, Lit ''CREATE'', Plus Space,
     Opt (Group 1 (seqs [Lit ''OR'', Plus Space, Lit ''REPLACE'', Plus Space])),
     Group 2 (alts [''PROCEDURE'', ''FUNCTION'', ''PACKAGE'', ''TRIGGER'', ''TYPE'', ''VIEW'']),
     WordBoundary]"

definition createdObject :: regex where
  "createdObject = seqs [Lit ''CREATE'', Plus Space,
     Opt (Group 1 (seqs [Lit ''OR'', Plus Space, Lit ''REPLACE'', Plus Space])),
     Group 2 (alts [''PROCEDURE'', ''FUNCTION'', ''PACKAGE'', ''TRIGGER'', ''TYPE'']),
     Plus Space, Group 3 (Plus Word)]"

definition newline :: string where
  "newline = [CHR 0x0A]"

definition statusSql :: string where
  "statusSql = ''SELECT status FROM user_objects WHERE object_name = :name AND object_type = :type''"

definition errorsSql :: string where
  "errorsSql = ''SELECT line, position, text FROM user_errors '' @ newline
     @ ''                 WHERE name = :name AND type = :type '' @ newline
     @ ''                 ORDER BY sequence''"

text \<open>The \<open>catch\<close> block of \<open>executePlsql\<close>.\<close>

definition plsqlFailed :: "QueryType \<Rightarrow> string list \<Rightarrow> string \<Rightarrow> 'w ConnectionManager
    \<Rightarrow> (string + QueryResult) \<times> 'w ConnectionManager" where
  "plsqlFailed qt ws e st =
     (Inr ((result False qt (''PL/SQL execution failed: '' @ e))
            \<lparr>error := Some e, warnings := nonEmptyList ws\<rparr>), st)"

definition plsqlDone :: "QueryType \<Rightarrow> string list \<Rightarrow> real \<Rightarrow> jsval \<Rightarrow> 'w ConnectionManager
    \<Rightarrow> (string + QueryResult) \<times> 'w ConnectionManager" where
  "plsqlDone qt ws t compilationStatus st =
     (let statusMsg = (if jsTruthy compilationStatus
                       then '' Object status: '' @ jsToString compilationStatus @ ''.'' else [])
      in (Inr ((result True qt (''PL/SQL executed successfully.'' @ statusMsg))
                \<lparr>executionTime := Some t, warnings := nonEmptyList ws\<rparr>), st))"

text \<open>
  The part of \<open>executePlsql\<close> after the statement ran and was committed: the lookup
  of the compiled status of a created routine. The last branch of the case on the
  captures stands for the \<open>TypeError\<close> of \<open>match[2].toUpperCase()\<close> on a group that
  did not take part in the match; groups 2 and 3 take part in every match (lemma
  \<open>createdObject_captures\<close> below), so it is never taken.
\<close>

definition checkCompilation :: "'w Driver \<Rightarrow> Connection \<Rightarrow> QueryType \<Rightarrow> string list \<Rightarrow> string
    \<Rightarrow> real \<Rightarrow> 'w ConnectionManager \<Rightarrow> (string + QueryResult) \<times> 'w ConnectionManager" where
  "checkCompilation drv c qt ws plsql t st =
     (if includesStr (toUpperCase plsql) ''CREATE'' then
        (case exec createdObject plsql of
           None \<Rightarrow> plsqlDone qt ws t JUndefined st
         | Some caps \<Rightarrow>
            (case (map_of caps 2, map_of caps 3) of
               (Some g2, Some g3) \<Rightarrow>
                 (let objType = toUpperCase g2;
                      objName = toUpperCase g3;
                      b = Some [(''name'', JStr objName), (''type'', JStr objType)]
                  in case invoke (Execute c statusSql b None) (drvExecute drv c statusSql b None) st of
                       (Inl e, s1) \<Rightarrow> plsqlFailed qt ws e s1
                     | (Inr statusResult, s1) \<Rightarrow>
                        (case resultRows statusResult of
                           Some (row # others) \<Rightarrow>
                             (let compilationStatus = cell row 0 in
                              if compilationStatus \<noteq> JStr ''VALID'' then
                                (case invoke (Execute c errorsSql b None)
                                        (drvExecute drv c errorsSql b None) s1 of
                                   (Inl e, s2) \<Rightarrow> plsqlFailed qt ws e s2
                                 | (Inr errorsResult, s2) \<Rightarrow>
                                    (case resultRows errorsResult of
                                       Some (r # rs) \<Rightarrow>
                                         (let errorDetails = join (map (\<lambda>x. ''  Line '' @ jsToString (cell x 0)
                                                 @ '', Col '' @ jsToString (cell x 1) @ '': ''
                                                 @ jsToString (cell x 2)) (r # rs)) newline
                                          in (Inr ((result False qt (''PL/SQL compiled with errors:''
                                                      @ newline @ errorDetails))
                                                    \<lparr>error := Some (''Compilation failed for '' @ objType
                                                                     @ '' '' @ objName),
                                                     executionTime := Some t\<rparr>), s2))
                                     | _ \<Rightarrow> plsqlDone qt ws t compilationStatus s2))
                              else plsqlDone qt ws t compilationStatus s1)
                         | _ \<Rightarrow> plsqlDone qt ws t JUndefined s1))
             | _ \<Rightarrow> plsqlFailed qt ws
                     (''Cannot read properties of undefined (reading '' @ apos @ ''toUpperCase'' @ apos @ '')'') st))
      else plsqlDone qt ws t JUndefined st)"

definition executePlsql :: "QueryExecutor \<Rightarrow> 'w Driver \<Rightarrow> string \<Rightarrow> string \<Rightarrow> binds option
    \<Rightarrow> bool \<Rightarrow> 'w ConnectionManager \<Rightarrow> (string + QueryResult) \<times> 'w ConnectionManager" where
  "executePlsql this drv connectionName plsql params doCommit st =
     (let qt = detectQueryType plsql in
      case getConnectionConfig st connectionName of
        Inl e \<Rightarrow> (Inl e, st)
      | Inr cfg \<Rightarrow>
         if mode cfg = READONLY then
           (Inr (readOnlyDenied qt (''Connection '' @ apos @ connectionName @ apos
                   @ '' is configured as READ ONLY. PL/SQL execution is not allowed.'')), st)
         else
           (case assessDangerLevel plsql qt of
              (dangerLevel, ws) \<Rightarrow>
                if dangerLevel = CRITICAL \<and> \<not> test allowedCreate plsql then (Inr (blocked qt ws), st)
                else
                  (case getConnection drv connectionName st of
                     (Inl e, s1) \<Rightarrow> plsqlFailed qt ws e s1
                   | (Inr c, s1) \<Rightarrow>
                      (let startTime = dateNow drv (world s1);
                           bindParams = Some (case params of None \<Rightarrow> [] | Some b \<Rightarrow> b);
                           options = Some \<lparr>autoCommit = Some False, maxRows = None, outFormat = None\<rparr>
                       in case invoke (Execute c plsql bindParams options)
                                 (drvExecute drv c plsql bindParams options) s1 of
                            (Inl e, s2) \<Rightarrow> plsqlFailed qt ws e s2
                          | (Inr res, s2) \<Rightarrow>
                             (let t = elapsed startTime (dateNow drv (world s2)) in
                              if doCommit then
                                (case invoke (Commit c) (drvCommit drv c) s2 of
                                   (Inl e, s3) \<Rightarrow> plsqlFailed qt ws e s3
                                 | (Inr u, s3) \<Rightarrow> checkCompilation drv c qt ws plsql t s3)
                              else checkCompilation drv c qt ws plsql t s2)))))"

definition rollback :: "QueryExecutor \<Rightarrow> 'w Driver \<Rightarrow> string \<Rightarrow> 'w ConnectionManager
    \<Rightarrow> (string + QueryResult) \<times> 'w ConnectionManager" where
  "rollback this drv connectionName st =
     (let failed = (\<lambda>e s. (Inr ((result False OTHER (''Rollback failed: '' @ e))\<lparr>error := Some e\<rparr>), s)) in
      case getConnection drv connectionName st of
        (Inl e, s1) \<Rightarrow> failed e s1
      | (Inr c, s1) \<Rightarrow>
         (case invoke (Rollback c) (drvRollback drv c) s1 of
            (Inl e, s2) \<Rightarrow> failed e s2
          | (Inr u, s2) \<Rightarrow>
              (Inr (result True OTHER (''Transaction rolled back on '' @ apos @ connectionName
                                       @ apos @ ''.'')), s2)))"

definition commit :: "QueryExecutor \<Rightarrow> 'w Driver \<Rightarrow> string \<Rightarrow> 'w ConnectionManager
    \<Rightarrow> (string + QueryResult) \<times> 'w ConnectionManager" where
  "commit this drv connectionName st =
     (case getConnectionConfig st connectionName of
        Inl e \<Rightarrow> (Inl e, st)
      | Inr cfg \<Rightarrow>
         if mode cfg = READONLY then
           (Inr (readOnlyDenied OTHER (''Connection '' @ apos @ connectionName @ apos
                   @ '' is READ ONLY. Cannot commit.'')), st)
         else
           (let failed = (\<lambda>e s. (Inr ((result False OTHER (''Commit failed: '' @ e))\<lparr>error := Some e\<rparr>), s)) in
            case getConnection drv connectionName st of
              (Inl e, s1) \<Rightarrow> failed e s1
            | (Inr c, s1) \<Rightarrow>
               (case invoke (Commit c) (drvCommit drv c) s1 of
                  (Inl e, s2) \<Rightarrow> failed e s2
                | (Inr u, s2) \<Rightarrow>
                    (Inr (result True OTHER (''Transaction committed on '' @ apos @ connectionName
                                             @ apos @ ''.'')), s2))))"

section \<open>What the specification says about the create exception\<close>


section \<open>An example installation\<close>

text \<open>
  A read-write and a read-only connection, and two drivers over a world that is a clock
  in milliseconds: one whose database answers every query with three rows and fails to
  close a session, and one whose database cannot be reached.
\<close>

definition exampleDev :: ConnectionConfig where
  "exampleDev = \<lparr>name = ''dev'', username = ''scott'', mode = READWRITE, host = Some ''db'',
     port = None, serviceName = Some ''orcl'', sid = None, connectionString = None,
     password = Some ''tiger'', passwordEnv = None\<rparr>"

definition exampleProd :: ConnectionConfig where
  "exampleProd = \<lparr>name = ''prod'', username = ''report'', mode = READONLY, host = Some ''db'',
     port = Some 1522, serviceName = None, sid = Some ''PRD'', connectionString = None,
     password = Some ''secret'', passwordEnv = None\<rparr>"

definition exampleServer :: ServerConfig where
  "exampleServer = \<lparr>oracleClientMode = THIN, oracleClientPath = None, defaultMaxRows = 2,
     queryTimeout = 30, configConnections = [exampleDev, exampleProd]\<rparr>"

definition exampleResult :: Result where
  "exampleResult = \<lparr>resultRows = Some [[JNum 1], [JNum 2], [JNum 3]], rowsAffected = Some 3,
     metaData = Some [''ID'']\<rparr>"

definition exampleDriver :: "nat Driver" where
  "exampleDriver = \<lparr>
     drvInitOracleClient = (\<lambda>libDir w. (Inr (), w)),
     drvGetConnection = (\<lambda>user pwd dsn w. (Inr 7, w + 20)),
     drvPing = (\<lambda>c w. (Inr (), w + 1)),
     drvExecute = (\<lambda>c sql b opts w. (Inr exampleResult, w + 5)),
     drvCommit = (\<lambda>c w. (Inr (), w + 2)),
     drvRollback = (\<lambda>c w. (Inr (), w + 2)),
     drvClose = (\<lambda>c w. (Inl ''ORA-03113: end-of-file on communication channel'', w + 1)),
     processEnv = (\<lambda>w v. None),
     dateNow = (\<lambda>w. int w)\<rparr>"


definition exampleManager :: "nat ConnectionManager" where
  "exampleManager = newConnectionManager exampleServer 0"

definition exampleExecutor :: QueryExecutor where
  "exampleExecutor = newQueryExecutor exampleManager"

definition connectedManager :: "nat ConnectionManager" where
  "connectedManager = exampleManager\<lparr>connections := [(''dev'', 7), (''prod'', 8)], initialized := True\<rparr>"

text \<open>Outcomes of a query on the example installation.\<close>

definition exampleOutcome :: QueryResult where
  "exampleOutcome = \<lparr>success = True, queryType = SELECT,
     message = ''Query executed successfully. Found 2 row(s).'',
     columns = Some [''ID''], rows = Some [[JNum 1], [JNum 2]], rowCount = Some 2,
     affectedRows = None, executionTime = Some (elapsed 20 25),
     warnings = Some [infoSign @ '' Results limited to 2 rows. More rows available.''],
     error = None\<rparr>"

text \<open>
  The same installation with a default row cap of 0, as the environment variable
  \<open>DEFAULT_MAX_ROWS=0\<close> configures it, and the outcome of a query on it.
\<close>

definition zeroDefaultServer :: ServerConfig where
  "zeroDefaultServer = exampleServer\<lparr>defaultMaxRows := 0\<rparr>"

definition zeroDefaultManager :: "nat ConnectionManager" where
  "zeroDefaultManager = newConnectionManager zeroDefaultServer 0"

definition zeroDefaultExecutor :: QueryExecutor where
  "zeroDefaultExecutor = newQueryExecutor zeroDefaultManager"

definition zeroCapOutcome :: QueryResult where
  "zeroCapOutcome = \<lparr>success = True, queryType = SELECT,
     message = ''Query executed successfully. Found 0 row(s).'',
     columns = Some [''ID''], rows = Some [], rowCount = Some 0,
     affectedRows = None, executionTime = Some (elapsed 20 25),
     warnings = Some [infoSign @ '' Results limited to 0 rows. More rows available.''],
     error = None\<rparr>"

definition largeCapOutcome :: QueryResult where
  "largeCapOutcome = \<lparr>success = True, queryType = SELECT,
     message = ''Query executed successfully. Found 3 row(s).'',
     columns = Some [''ID''], rows = Some [[JNum 1], [JNum 2], [JNum 3]], rowCount = Some 3,
     affectedRows = None, executionTime = Some (elapsed 20 25), warnings = None,
     error = None\<rparr>"

definition negativeCapOutcome :: QueryResult where
  "negativeCapOutcome = \<lparr>success = True, queryType = SELECT,
     message = ''Query executed successfully. Found 2 row(s).'',
     columns = Some [''ID''], rows = Some [[JNum 1], [JNum 2]], rowCount = Some 2,
     affectedRows = None, executionTime = Some (elapsed 20 25),
     warnings = Some [infoSign @ '' Results limited to -1 rows. More rows available.''],
     error = None\<rparr>"

section \<open>The classifier\<close>

lemma detect_select_example: "detectQueryType ''  select 1 from dual'' = SELECT"
  by code_simp

lemma detect_kind:
  "\<exists>!k. k \<in> set [SELECT, INSERT, UPDATE, DELETE, DDL, PLSQL, OTHER] \<and> detectQueryType sql = k"
  by (cases "detectQueryType sql") auto

lemma detect_select:
  "startsWith (toUpperCase (trim sql)) ''SELECT'' \<Longrightarrow> detectQueryType sql = SELECT"
  by (simp add: detectQueryType_def)

lemma detect_other:
  "detectQueryType sql = OTHER \<longleftrightarrow>
     (\<forall>kw \<in> set [''SELECT'', ''INSERT'', ''UPDATE'', ''DELETE'', ''CREATE'', ''ALTER'', ''DROP'',
                  ''TRUNCATE'', ''GRANT'', ''REVOKE'', ''BEGIN'', ''DECLARE''].
         \<not> startsWith (toUpperCase (trim sql)) kw)
     \<and> \<not> includesStr (toUpperCase (trim sql)) ''CREATE OR REPLACE''"
  by (simp add: detectQueryType_def Let_def)

text \<open>
  C6: \<open>detectQueryType\<close> is total and unambiguous. For every text it returns exactly one
  of the seven kinds, which are pairwise different; a text that begins with SELECT
  after trimming and upper-casing is of kind SELECT, as \<open>"  select 1 from dual"\<close> is;
  and a text that matches no rule (none of the twelve leading keywords, and no
  CREATE OR REPLACE inside) is of kind OTHER.
\<close>

theorem detectQueryType_total_unambiguous:
  "(\<exists>!k. k \<in> set [SELECT, INSERT, UPDATE, DELETE, DDL, PLSQL, OTHER] \<and> detectQueryType sql = k)
   \<and> distinct [SELECT, INSERT, UPDATE, DELETE, DDL, PLSQL, OTHER]
   \<and> (startsWith (toUpperCase (trim sql)) ''SELECT'' \<longrightarrow> detectQueryType sql = SELECT)
   \<and> detectQueryType ''  select 1 from dual'' = SELECT
   \<and> (\<not> list_ex (startsWith (toUpperCase (trim sql)))
            [''SELECT'', ''INSERT'', ''UPDATE'', ''DELETE'', ''CREATE'', ''ALTER'', ''DROP'',
             ''TRUNCATE'', ''GRANT'', ''REVOKE'', ''BEGIN'', ''DECLARE'']
        \<and> \<not> includesStr (toUpperCase (trim sql)) ''CREATE OR REPLACE''
       \<longrightarrow> detectQueryType sql = OTHER)"
  using detect_kind [of sql] detect_select [of sql] detect_select_example detect_other [of sql]
  by simp

theorem detectQueryType_total_unambiguous_witness:
  "startsWith (toUpperCase (trim ''  select 1 from dual'')) ''SELECT''
   \<and> detectQueryType ''  select 1 from dual'' = SELECT
   \<and> \<not> list_ex (startsWith (toUpperCase (trim ''EXPLAIN PLAN FOR SELECT 1 FROM dual'')))
         [''SELECT'', ''INSERT'', ''UPDATE'', ''DELETE'', ''CREATE'', ''ALTER'', ''DROP'',
          ''TRUNCATE'', ''GRANT'', ''REVOKE'', ''BEGIN'', ''DECLARE'']
   \<and> \<not> includesStr (toUpperCase (trim ''EXPLAIN PLAN FOR SELECT 1 FROM dual'')) ''CREATE OR REPLACE''
   \<and> detectQueryType ''EXPLAIN PLAN FOR SELECT 1 FROM dual'' = OTHER"
proof -
  have h1: "startsWith (toUpperCase (trim ''  select 1 from dual'')) ''SELECT''"
    by code_simp
  have h2: "\<not> list_ex (startsWith (toUpperCase (trim ''EXPLAIN PLAN FOR SELECT 1 FROM dual'')))
         [''SELECT'', ''INSERT'', ''UPDATE'', ''DELETE'', ''CREATE'', ''ALTER'', ''DROP'',
          ''TRUNCATE'', ''GRANT'', ''REVOKE'', ''BEGIN'', ''DECLARE'']
     \<and> \<not> includesStr (toUpperCase (trim ''EXPLAIN PLAN FOR SELECT 1 FROM dual'')) ''CREATE OR REPLACE''"
    by code_simp
  from h1 h2 detectQueryType_total_unambiguous [of "''  select 1 from dual''"]
    detectQueryType_total_unambiguous [of "''EXPLAIN PLAN FOR SELECT 1 FROM dual''"]
  show ?thesis by blast
qed

text \<open>
  C1, as amended: a text that contains CREATE OR REPLACE is classified PLSQL when its
  trimmed, upper-cased form starts with none of the ten keywords that are tested first
  (SELECT, INSERT, UPDATE, DELETE, CREATE, ALTER, DROP, TRUNCATE, GRANT, REVOKE). The
  earlier rules win, so the fragment alone does not decide the kind.
\<close>

theorem detectQueryType_create_or_replace:
  "\<not> list_ex (startsWith (toUpperCase (trim sql)))
        [''SELECT'', ''INSERT'', ''UPDATE'', ''DELETE'', ''CREATE'', ''ALTER'', ''DROP'',
         ''TRUNCATE'', ''GRANT'', ''REVOKE'']
   \<Longrightarrow> includesStr (toUpperCase (trim sql)) ''CREATE OR REPLACE''
   \<Longrightarrow> detectQueryType sql = PLSQL"
  by (simp add: detectQueryType_def Let_def)

theorem detectQueryType_create_or_replace_witness:
  "\<not> list_ex (startsWith (toUpperCase (trim ''/* v2 */ create or replace function f return number is begin return 1; end;'')))
        [''SELECT'', ''INSERT'', ''UPDATE'', ''DELETE'', ''CREATE'', ''ALTER'', ''DROP'',
         ''TRUNCATE'', ''GRANT'', ''REVOKE'']
   \<and> includesStr (toUpperCase (trim ''/* v2 */ create or replace function f return number is begin return 1; end;''))
        ''CREATE OR REPLACE''
   \<and> detectQueryType ''/* v2 */ create or replace function f return number is begin return 1; end;'' = PLSQL"
proof -
  have h1: "\<not> list_ex (startsWith (toUpperCase (trim ''/* v2 */ create or replace function f return number is begin return 1; end;'')))
        [''SELECT'', ''INSERT'', ''UPDATE'', ''DELETE'', ''CREATE'', ''ALTER'', ''DROP'',
         ''TRUNCATE'', ''GRANT'', ''REVOKE'']"
    by code_simp
  have h2: "includesStr (toUpperCase (trim ''/* v2 */ create or replace function f return number is begin return 1; end;''))
        ''CREATE OR REPLACE''"
    by code_simp
  from detectQueryType_create_or_replace [OF h1 h2] h1 h2 show ?thesis by blast
qed

text \<open>
  The claim as the specification has it fails: the specification's own example starts
  with CREATE and is of kind DDL, and a query that quotes the fragment stays a SELECT.
\<close>

theorem detectQueryType_create_or_replace_counterexample:
  "includesStr (toUpperCase ''CREATE OR REPLACE FUNCTION f ...'') ''CREATE OR REPLACE''
   \<and> detectQueryType ''CREATE OR REPLACE FUNCTION f ...'' = DDL
   \<and> includesStr (toUpperCase ''SELECT name FROM t -- create or replace'') ''CREATE OR REPLACE''
   \<and> detectQueryType ''SELECT name FROM t -- create or replace'' = SELECT"
  by code_simp

section \<open>The danger assessor\<close>

lemma assess_delete_all:
  "assessDangerLevel ''DELETE FROM t'' DELETE =
     (HIGH, [warnSign @ '' DELETE without WHERE clause - this will delete ALL rows in the table''])"
  by code_simp

lemma assess_delete_where: "assessDangerLevel ''DELETE FROM t WHERE id=1'' DELETE = (MODERATE, [])"
  by code_simp

lemma assess_drop:
  "assessDangerLevel ''DROP TABLE t'' DDL =
     (CRITICAL, [warnSign @ '' DROP statement detected - this will permanently remove objects''])"
  by code_simp

lemma assess_select: "assessDangerLevel ''SELECT * FROM t'' SELECT = (SAFE, [])"
  by code_simp

lemma assess_no_where:
  assumes "\<not> test DANGEROUS_drop sql" and "\<not> test DANGEROUS_truncate sql"
    and "\<not> test DANGEROUS_alterSystem sql" and "\<not> includesStr (toUpperCase sql) ''WHERE''"
  shows "assessDangerLevel sql DELETE =
           (HIGH, [warnSign @ '' DELETE without WHERE clause - this will delete ALL rows in the table''])"
    and "assessDangerLevel sql UPDATE =
           (HIGH, [warnSign @ '' UPDATE without WHERE clause - this will update ALL rows in the table''])"
  using assms by (simp_all add: assessDangerLevel_def)

text \<open>
  C5, as amended: the four cases of the specification hold as written (severity "none"
  is \<open>SAFE\<close>), and a text of kind DELETE (or UPDATE) whose upper-cased form lacks WHERE
  has severity high with the no-WHERE warning, provided it matches none of the three
  critical patterns (DROP of an object, TRUNCATE TABLE, ALTER SYSTEM), which are tested
  first.
\<close>

theorem assessDangerLevel_cases:
  "assessDangerLevel ''DELETE FROM t'' DELETE =
     (HIGH, [warnSign @ '' DELETE without WHERE clause - this will delete ALL rows in the table''])
   \<and> assessDangerLevel ''DELETE FROM t WHERE id=1'' DELETE = (MODERATE, [])
   \<and> fst (assessDangerLevel ''DROP TABLE t'' DDL) = CRITICAL
   \<and> assessDangerLevel ''SELECT * FROM t'' SELECT = (SAFE, [])
   \<and> (\<not> test DANGEROUS_drop sql \<and> \<not> test DANGEROUS_truncate sql \<and> \<not> test DANGEROUS_alterSystem sql
        \<and> \<not> includesStr (toUpperCase sql) ''WHERE''
       \<longrightarrow> assessDangerLevel sql DELETE =
             (HIGH, [warnSign @ '' DELETE without WHERE clause - this will delete ALL rows in the table''])
           \<and> assessDangerLevel sql UPDATE =
             (HIGH, [warnSign @ '' UPDATE without WHERE clause - this will update ALL rows in the table'']))"
  using assess_delete_all assess_delete_where assess_drop assess_select assess_no_where [of sql]
  by simp

theorem assessDangerLevel_cases_witness:
  "\<not> test DANGEROUS_drop ''update accounts set balance = 0''
   \<and> \<not> test DANGEROUS_truncate ''update accounts set balance = 0''
   \<and> \<not> test DANGEROUS_alterSystem ''update accounts set balance = 0''
   \<and> \<not> includesStr (toUpperCase ''update accounts set balance = 0'') ''WHERE''
   \<and> assessDangerLevel ''update accounts set balance = 0'' DELETE =
       (HIGH, [warnSign @ '' DELETE without WHERE clause - this will delete ALL rows in the table''])
   \<and> assessDangerLevel ''update accounts set balance = 0'' UPDATE =
       (HIGH, [warnSign @ '' UPDATE without WHERE clause - this will update ALL rows in the table''])"
proof -
  have h: "\<not> test DANGEROUS_drop ''update accounts set balance = 0''
     \<and> \<not> test DANGEROUS_truncate ''update accounts set balance = 0''
     \<and> \<not> test DANGEROUS_alterSystem ''update accounts set balance = 0''
     \<and> \<not> includesStr (toUpperCase ''update accounts set balance = 0'') ''WHERE''"
    by code_simp
  from h assessDangerLevel_cases [of "''update accounts set balance = 0''"]
  show ?thesis by blast
qed

text \<open>
  Without that proviso the general statement fails: a text of kind DELETE with no WHERE
  that also holds a DROP of a table is critical, not high.
\<close>

theorem assessDangerLevel_cases_counterexample:
  "detectQueryType ''DELETE FROM t; DROP TABLE t'' = DELETE
   \<and> \<not> includesStr (toUpperCase ''DELETE FROM t; DROP TABLE t'') ''WHERE''
   \<and> fst (assessDangerLevel ''DELETE FROM t; DROP TABLE t'' DELETE) = CRITICAL"
  by code_simp

section \<open>The captures of a match\<close>

lemma run_Seq_iff: "x \<in> set (run (Seq a b) st) \<longleftrightarrow> (\<exists>y \<in> set (run a st). x \<in> set (run b y))"
  by simp

lemma run_keeps_captures:
  "x \<in> set (run r st) \<Longrightarrow> k \<in> fst ` set (snd (snd st)) \<Longrightarrow> k \<in> fst ` set (snd (snd x))"
proof (induction r arbitrary: st x)
  case (Lit lit)
  then show ?case by (cases st) (auto split: option.splits)
next
  case WordBoundary
  then show ?case by (cases st) (auto split: if_splits)
next
  case (Plus cl)
  then show ?case by (cases st) auto
next
  case (Seq r1 r2)
  from Seq.prems(1) obtain y where "y \<in> set (run r1 st)" "x \<in> set (run r2 y)"
    by (auto simp only: run_Seq_iff)
  with Seq.IH Seq.prems(2) show ?case by blast
next
  case (Alt r1 r2)
  from Alt.prems(1) have "x \<in> set (run r1 st) \<or> x \<in> set (run r2 st)" by simp
  with Alt.IH Alt.prems(2) show ?case by blast
next
  case (Opt r)
  from Opt.prems(1) have "x \<in> set (run r st) \<or> x = st" by auto
  with Opt.IH Opt.prems(2) show ?case by blast
next
  case (Group j r)
  obtain p s caps where st: "st = (p, s, caps)" by (cases st)
  from Group.prems(1) st obtain p' s' c0 where
    y: "(p', s', c0) \<in> set (run r st)"
    and x: "x = (p', s', AList.update j (take (length s - length s') s) c0)"
    by auto
  from Group.IH [OF y Group.prems(2)] have "k \<in> fst ` set c0" by simp
  with x show ?case by (simp add: dom_update)
qed

lemma run_Group_captures:
  "x \<in> set (run (Group j r) st) \<Longrightarrow> j \<in> fst ` set (snd (snd x))"
  by (cases st) (auto simp: dom_update)

lemma execFrom_run:
  "execFrom r prev s = Some st \<Longrightarrow> \<exists>st0. st \<in> set (run r st0)"
proof (induction s arbitrary: prev)
  case Nil
  show ?case
  proof (cases "run r (prev, [], [])")
    case Nil
    with Nil.prems show ?thesis by simp
  next
    case (Cons x xs)
    with Nil.prems have "st \<in> set (run r (prev, [], []))" by simp
    then show ?thesis by blast
  qed
next
  case (Cons c cs)
  show ?case
  proof (cases "run r (prev, c # cs, [])")
    case Nil
    with Cons show ?thesis by simp
  next
    case (Cons x xs)
    with Cons.prems have "st \<in> set (run r (prev, c # cs, []))" by simp
    then show ?thesis by blast
  qed
qed

lemma createdObject_captures:
  assumes "exec createdObject plsql = Some caps"
  shows "\<exists>g2 g3. map_of caps 2 = Some g2 \<and> map_of caps 3 = Some g3"
proof -
  from assms obtain st where ex: "execFrom createdObject None plsql = Some st"
    and caps: "caps = snd (snd st)"
    by (auto simp: exec_def)
  from execFrom_run [OF ex] obtain st0 where "st \<in> set (run createdObject st0)" by blast
  then have "\<exists>y5. \<exists>y4 \<in> set (run (Group 2 (alts [''PROCEDURE'', ''FUNCTION'', ''PACKAGE'',
                                                  ''TRIGGER'', ''TYPE''])) y5).
               \<exists>y6 \<in> set (run (Plus Space) y4). st \<in> set (run (Group 3 (Plus Word)) y6)"
    by (simp only: createdObject_def seqs.simps run_Seq_iff) blast
  then obtain y5 y4 y6 where
    g2: "y4 \<in> set (run (Group 2 (alts [''PROCEDURE'', ''FUNCTION'', ''PACKAGE'', ''TRIGGER'', ''TYPE''])) y5)"
    and sp: "y6 \<in> set (run (Plus Space) y4)"
    and g3: "st \<in> set (run (Group 3 (Plus Word)) y6)"
    by blast
  from run_keeps_captures [OF g3 run_keeps_captures [OF sp run_Group_captures [OF g2]]]
  have k2: "2 \<in> fst ` set caps"
    by (simp add: caps)
  from run_Group_captures [OF g3] have k3: "3 \<in> fst ` set caps"
    by (simp add: caps)
  from k2 k3 show ?thesis
    by (metis domD dom_map_of_conv_image_fst)
qed

section \<open>The log of driver calls\<close>

lemma invoke_calls: "invoke ev f st = (r, st') \<Longrightarrow> calls st' = calls st @ [ev]"
  by (auto simp: invoke_def split: prod.splits)

lemma invoke_connections: "invoke ev f st = (r, st') \<Longrightarrow> connections st' = connections st"
  by (auto simp: invoke_def split: prod.splits)





lemma isConnected_True_cached:
  "isConnected drv nm st = (Inr True, st') \<Longrightarrow> map_of (connections st') nm \<noteq> None"
  by (auto simp: isConnected_def split: option.splits prod.splits sum.splits
           dest!: invoke_connections)


lemma getConnection_cached:
  assumes "isConnected drv nm st = (Inr True, s1)"
  shows "\<exists>c. map_of (connections s1) nm = Some c \<and> getConnection drv nm st = (Inr c, s1)"
  using assms isConnected_True_cached [OF assms] by (auto simp: getConnection_def)


lemma getConnectionConfig_Some:
  "map_of (connectionConfigs st) cn = Some cfg \<Longrightarrow> getConnectionConfig st cn = Inr cfg"
  by (simp add: getConnectionConfig_def)

section \<open>Releasing sessions\<close>

lemma disconnect_absent:
  "map_of (connections st) nm = None \<Longrightarrow> disconnect drv nm st = (Inr False, st)"
  by (simp add: disconnect_def)

lemma disconnect_cached:
  assumes "map_of (connections st) nm = Some c"
  shows "\<exists>s1. disconnect drv nm st = (Inr True, s1)
           \<and> connections s1 = AList.delete nm (connections st)
           \<and> calls s1 = calls st @ [Close c]"
proof -
  obtain r s0 where inv: "invoke (Close c) (drvClose drv c) st = (r, s0)"
    by (cases "invoke (Close c) (drvClose drv c) st")
  from assms inv have "disconnect drv nm st
      = (Inr True, s0\<lparr>connections := AList.delete nm (connections s0)\<rparr>)"
    by (simp add: disconnect_def)
  with invoke_calls [OF inv] invoke_connections [OF inv] show ?thesis by simp
qed

lemma disconnect_result: "fst (disconnect drv nm st) = Inr (map_of (connections st) nm \<noteq> None)"
proof (cases "map_of (connections st) nm")
  case None
  then show ?thesis by (simp add: disconnect_absent)
next
  case (Some c)
  from disconnect_cached [OF this, of drv] show ?thesis using Some by auto
qed

lemma disconnect_evicts: "map_of (connections (snd (disconnect drv nm st))) nm = None"
proof (cases "map_of (connections st) nm")
  case None
  then show ?thesis by (simp add: disconnect_absent)
next
  case (Some c)
  from disconnect_cached [OF this, of drv] show ?thesis
    by (auto simp: delete_conv')
qed

lemma disconnectLoop_spec:
  "disconnectLoop drv nms k st = (r, st') \<Longrightarrow>
     r = Inr (k + card (set nms \<inter> dom (map_of (connections st))))
     \<and> connections st' = filter (\<lambda>p. fst p \<notin> set nms) (connections st)
     \<and> prefix (calls st) (calls st')
     \<and> (\<forall>n c. n \<in> set nms \<and> map_of (connections st) n = Some c \<longrightarrow> Close c \<in> set (calls st'))"
proof (induction nms arbitrary: k st)
  case Nil
  then show ?case by simp
next
  case (Cons nm nms)
  show ?case
  proof (cases "map_of (connections st) nm")
    case None
    with Cons.prems have loop: "disconnectLoop drv nms k st = (r, st')"
      by (simp add: disconnect_absent)
    note ih = Cons.IH [OF loop]
    from None have notin: "nm \<notin> dom (map_of (connections st))" by auto
    then have "set (nm # nms) \<inter> dom (map_of (connections st))
        = set nms \<inter> dom (map_of (connections st))" by auto
    moreover from None have "nm \<notin> fst ` set (connections st)"
      by (simp add: map_of_eq_None_iff)
    then have "filter (\<lambda>p. fst p \<notin> set (nm # nms)) (connections st)
        = filter (\<lambda>p. fst p \<notin> set nms) (connections st)"
      by (intro filter_cong) auto
    ultimately show ?thesis using ih None by auto
  next
    case (Some c)
    from disconnect_cached [OF Some, of drv] obtain s1 where
      d: "disconnect drv nm st = (Inr True, s1)"
      and conns: "connections s1 = AList.delete nm (connections st)"
      and log: "calls s1 = calls st @ [Close c]" by blast
    from Cons.prems d have loop: "disconnectLoop drv nms (k + 1) s1 = (r, st')" by simp
    note ih = Cons.IH [OF loop]
    have dom1: "dom (map_of (connections s1)) = dom (map_of (connections st)) - {nm}"
      by (simp add: conns delete_conv')
    from Some have "nm \<in> dom (map_of (connections st))" by auto
    then have "set (nm # nms) \<inter> dom (map_of (connections st))
        = insert nm (set nms \<inter> (dom (map_of (connections st)) - {nm}))" by auto
    moreover have "finite (set nms \<inter> (dom (map_of (connections st)) - {nm}))" by simp
    moreover have "nm \<notin> set nms \<inter> (dom (map_of (connections st)) - {nm})" by simp
    ultimately have card: "card (set (nm # nms) \<inter> dom (map_of (connections st)))
        = Suc (card (set nms \<inter> (dom (map_of (connections st)) - {nm})))"
      by (simp del: Int_Diff)
    have filt: "filter (\<lambda>p. fst p \<notin> set nms) (connections s1)
        = filter (\<lambda>p. fst p \<notin> set (nm # nms)) (connections st)"
      by (auto simp: conns AList.delete_eq intro: filter_cong)
    from ih log have pre: "prefix (calls st) (calls st')"
      by (auto simp: prefix_def)
    have closes: "Close c' \<in> set (calls st')"
      if "n \<in> set (nm # nms)" and "map_of (connections st) n = Some c'" for n c'
    proof (cases "n = nm")
      case True
      with that Some have "c' = c" by simp
      moreover from ih log have "Close c \<in> set (calls st')" by (auto simp: prefix_def)
      ultimately show ?thesis by simp
    next
      case False
      with that have "n \<in> set nms" and "map_of (connections s1) n = Some c'"
        by (simp_all add: conns)
      with ih show ?thesis by blast
    qed
    from ih card filt pre closes dom1 show ?thesis by auto
  qed
qed

lemma disconnectAll_spec:
  assumes "disconnectAll drv st = (r, st')"
  shows "r = Inr (card (dom (map_of (connections st))))"
    and "connections st' = []"
    and "map_of (connections st) n = Some c \<Longrightarrow> Close c \<in> set (calls st')"
proof -
  note spec = disconnectLoop_spec [OF assms [unfolded disconnectAll_def]]
  have keys: "set (map fst (connections st)) = dom (map_of (connections st))"
    by (simp add: dom_map_of_conv_image_fst)
  from spec keys show "r = Inr (card (dom (map_of (connections st))))" by simp
  from spec show "connections st' = []" by simp
  assume "map_of (connections st) n = Some c"
  moreover from this keys have "n \<in> set (map fst (connections st))" by auto
  ultimately show "Close c \<in> set (calls st')" using spec by blast
qed

text \<open>
  C9: \<open>disconnect\<close> returns true exactly when a session was cached under the name, and
  the name has no cached session afterwards, whatever the driver does on \<open>close\<close> (a
  failing \<open>close\<close> included); with no cached session it returns false and changes
  nothing. \<open>disconnectAll\<close> returns the number of cached sessions, leaves none cached,
  has called \<open>close\<close> on each of them whatever the earlier calls answered, and on an
  empty registry returns 0 and changes nothing. Neither ever fails: the results are
  values (\<open>Inr\<close>), not exceptions.
\<close>

theorem disconnect_releases:
  "fst (disconnect drv nm st) = Inr (map_of (connections st) nm \<noteq> None)
   \<and> map_of (connections (snd (disconnect drv nm st))) nm = None
   \<and> (map_of (connections st) nm = None \<longrightarrow> disconnect drv nm st = (Inr False, st))
   \<and> fst (disconnectAll drv st) = Inr (card (dom (map_of (connections st))))
   \<and> (distinct (map fst (connections st)) \<longrightarrow>
        fst (disconnectAll drv st) = Inr (length (connections st)))
   \<and> connections (snd (disconnectAll drv st)) = []
   \<and> (map_of (connections st) n = Some c \<longrightarrow> Close c \<in> set (calls (snd (disconnectAll drv st))))
   \<and> (connections st = [] \<longrightarrow> disconnectAll drv st = (Inr 0, st))"
proof -
  obtain r st' where all: "disconnectAll drv st = (r, st')"
    by (cases "disconnectAll drv st")
  note spec = disconnectAll_spec [OF all]
  have "card (dom (map_of (connections st))) = length (connections st)"
    if "distinct (map fst (connections st))"
  proof -
    from that have "card (set (map fst (connections st))) = length (map fst (connections st))"
      by (rule distinct_card)
    then show ?thesis by (simp add: dom_map_of_conv_image_fst)
  qed
  moreover have "disconnectAll drv st = (Inr 0, st)" if "connections st = []"
    using that by (simp add: disconnectAll_def)
  ultimately show ?thesis
    using all spec disconnect_result [of drv nm st] disconnect_evicts [of drv nm st]
    by (auto simp: disconnect_absent)
qed

theorem disconnect_releases_witness:
  "map_of (connections exampleManager) ''dev'' = None
   \<and> disconnect exampleDriver ''dev'' exampleManager = (Inr False, exampleManager)
   \<and> connections exampleManager = []
   \<and> disconnectAll exampleDriver exampleManager = (Inr 0, exampleManager)
   \<and> distinct (map fst (connections connectedManager))
   \<and> fst (disconnectAll exampleDriver connectedManager) = Inr (length (connections connectedManager))
   \<and> map_of (connections connectedManager) ''prod'' = Some 8
   \<and> fst (drvClose exampleDriver 8 (world connectedManager))
        = Inl ''ORA-03113: end-of-file on communication channel''
   \<and> Close 8 \<in> set (calls (snd (disconnectAll exampleDriver connectedManager)))"
proof -
  have h1: "map_of (connections exampleManager) ''dev'' = None" by code_simp
  have h2: "connections exampleManager = []" by code_simp
  have h3: "distinct (map fst (connections connectedManager))" by code_simp
  have h4: "map_of (connections connectedManager) ''prod'' = Some 8" by code_simp
  have h5: "fst (drvClose exampleDriver 8 (world connectedManager))
        = Inl ''ORA-03113: end-of-file on communication channel''" by code_simp
  from h1 h2 h3 h4 h5
    disconnect_releases [of exampleDriver "''dev''" exampleManager "''prod''" 8]
    disconnect_releases [of exampleDriver "''dev''" connectedManager "''prod''" 8]
  show ?thesis by blast
qed

section \<open>Read-only connections\<close>

lemma readOnly_returns:
  assumes "map_of (connectionConfigs st) cn = Some cfg" and "mode cfg = READONLY"
  shows "executeDml this drv cn sql params doCommit st =
           (Inr (readOnlyDenied (detectQueryType sql) (''Connection '' @ apos @ cn @ apos
                   @ '' is configured as READ ONLY. DML operations are not allowed.'')), st)"
    and "executePlsql this drv cn sql params doCommit st =
           (Inr (readOnlyDenied (detectQueryType sql) (''Connection '' @ apos @ cn @ apos
                   @ '' is configured as READ ONLY. PL/SQL execution is not allowed.'')), st)"
    and "commit this drv cn st =
           (Inr (readOnlyDenied OTHER (''Connection '' @ apos @ cn @ apos
                   @ '' is READ ONLY. Cannot commit.'')), st)"
  using assms
  by (simp_all add: executeDml_def executePlsql_def commit_def getConnectionConfig_Some)

lemma readOnlyDenied_fields:
  "\<not> success (readOnlyDenied qt msg)" "error (readOnlyDenied qt msg) = Some ''Connection is read-only''"
  "warnings (readOnlyDenied qt msg) = None"
  by (simp_all add: readOnlyDenied_def result_def)

text \<open>
  C4: on a connection whose configured mode is read-only, \<open>executeDml\<close>,
  \<open>executePlsql\<close> and \<open>commit\<close> each return a failure whose error is
  "Connection is read-only", with no warnings, and leave the state as it was: no
  session is acquired and the log of driver calls gains nothing.
\<close>

theorem readonly_denied:
  assumes "map_of (connectionConfigs st) cn = Some cfg" and "mode cfg = READONLY"
  shows "(\<exists>r. executeDml this drv cn sql params doCommit st = (Inr r, st)
             \<and> \<not> success r \<and> error r = Some ''Connection is read-only'' \<and> warnings r = None)
       \<and> (\<exists>r. executePlsql this drv cn sql params doCommit st = (Inr r, st)
             \<and> \<not> success r \<and> error r = Some ''Connection is read-only'' \<and> warnings r = None)
       \<and> (\<exists>r. commit this drv cn st = (Inr r, st)
             \<and> \<not> success r \<and> error r = Some ''Connection is read-only'' \<and> warnings r = None)"
  using readOnly_returns [OF assms] readOnlyDenied_fields by simp

theorem readonly_denied_witness:
  "map_of (connectionConfigs exampleManager) ''prod'' = Some exampleProd
   \<and> mode exampleProd = READONLY
   \<and> (\<exists>r. executeDml exampleExecutor exampleDriver ''prod'' ''DELETE FROM t WHERE id = 1'' None True exampleManager
             = (Inr r, exampleManager)
           \<and> \<not> success r \<and> error r = Some ''Connection is read-only'' \<and> warnings r = None)
   \<and> (\<exists>r. executePlsql exampleExecutor exampleDriver ''prod'' ''DELETE FROM t WHERE id = 1'' None True exampleManager
             = (Inr r, exampleManager)
           \<and> \<not> success r \<and> error r = Some ''Connection is read-only'' \<and> warnings r = None)
   \<and> (\<exists>r. commit exampleExecutor exampleDriver ''prod'' exampleManager = (Inr r, exampleManager)
           \<and> \<not> success r \<and> error r = Some ''Connection is read-only'' \<and> warnings r = None)"
proof -
  have h1: "map_of (connectionConfigs exampleManager) ''prod'' = Some exampleProd"
    by code_simp
  have h2: "mode exampleProd = READONLY"
    by code_simp
  from readonly_denied [OF h1 h2] h1 h2 show ?thesis by blast
qed

section \<open>The read entry point\<close>

text \<open>
  C8: for a text whose kind is not SELECT, \<open>executeQuery\<close> returns the failure that
  points to \<open>execute_dml\<close> and leaves the state as it was (no session acquired, no driver
  call); so a call that changes the state is a call on a text of kind SELECT.
\<close>

theorem executeQuery_select_only:
  "(detectQueryType sql \<noteq> SELECT \<longrightarrow>
      (\<exists>r. executeQuery this drv cn sql cap params st = (Inr r, st)
          \<and> \<not> success r \<and> queryType r = detectQueryType sql
          \<and> message r
              = ''execute_query only supports SELECT statements. Use execute_dml for other operations.''
          \<and> error r = Some ''Invalid query type''))
   \<and> (snd (executeQuery this drv cn sql cap params st) \<noteq> st \<longrightarrow> detectQueryType sql = SELECT)"
  by (simp add: executeQuery_def Let_def result_def)

theorem executeQuery_select_only_witness:
  "detectQueryType ''UPDATE t SET x = 1'' \<noteq> SELECT
   \<and> (\<exists>r. executeQuery exampleExecutor exampleDriver ''dev'' ''UPDATE t SET x = 1'' None None exampleManager
             = (Inr r, exampleManager)
          \<and> \<not> success r \<and> queryType r = detectQueryType ''UPDATE t SET x = 1''
          \<and> message r
              = ''execute_query only supports SELECT statements. Use execute_dml for other operations.''
          \<and> error r = Some ''Invalid query type'')
   \<and> snd (executeQuery exampleExecutor exampleDriver ''dev'' ''SELECT id FROM t'' None None exampleManager)
        \<noteq> exampleManager
   \<and> detectQueryType ''SELECT id FROM t'' = SELECT"
proof -
  have h1: "detectQueryType ''UPDATE t SET x = 1'' \<noteq> SELECT"
    by code_simp
  have h2: "calls (snd (executeQuery exampleExecutor exampleDriver ''dev'' ''SELECT id FROM t'' None None exampleManager))
        \<noteq> calls exampleManager"
    by code_simp
  then have h2': "snd (executeQuery exampleExecutor exampleDriver ''dev'' ''SELECT id FROM t'' None None exampleManager)
        \<noteq> exampleManager" by auto
  from h1 h2'
    executeQuery_select_only [of "''UPDATE t SET x = 1''" exampleExecutor exampleDriver "''dev''" None None exampleManager]
    executeQuery_select_only [of "''SELECT id FROM t''" exampleExecutor exampleDriver "''dev''" None None exampleManager]
  show ?thesis by blast
qed

lemma roundDouble_exact: "\<bar>m\<bar> \<le> 2 ^ 53 \<Longrightarrow> roundDouble m = m"
  by (simp add: roundDouble_def)

lemma executeQuery_success:
  assumes run: "executeQuery this drv cn sql cap params st = (Inr r, st')" and ok: "success r"
    and n: "effectiveMaxRows this cap = n"
  shows "\<exists>c s1 res rs.
           getConnection drv cn st = (Inr c, s1)
         \<and> invoke (Execute c sql (Some (case params of None \<Rightarrow> [] | Some b \<Rightarrow> b))
                     (Some \<lparr>autoCommit = None, maxRows = Some (roundDouble (n + 1)),
                            outFormat = Some OUT_FORMAT_ARRAY\<rparr>))
                  (drvExecute drv c sql (Some (case params of None \<Rightarrow> [] | Some b \<Rightarrow> b))
                     (Some \<lparr>autoCommit = None, maxRows = Some (roundDouble (n + 1)),
                            outFormat = Some OUT_FORMAT_ARRAY\<rparr>))
                  s1 = (Inr res, st')
         \<and> rs = (case resultRows res of None \<Rightarrow> [] | Some x \<Rightarrow> x)
         \<and> rows r = Some (if int (length rs) > n then slice0 rs n else rs)
         \<and> rowCount r = Some (length (if int (length rs) > n then slice0 rs n else rs))
         \<and> warnings r = (if int (length rs) > n
                          then Some [infoSign @ '' Results limited to '' @ showInt n
                                     @ '' rows. More rows available.'']
                          else None)
         \<and> columns r = Some (case metaData res of None \<Rightarrow> [] | Some md \<Rightarrow> md)
         \<and> executionTime r = Some (elapsed (dateNow drv (world s1)) (dateNow drv (world st')))"
proof -
  let ?bs = "Some (case params of None \<Rightarrow> [] | Some b \<Rightarrow> b)"
  let ?opts = "Some \<lparr>autoCommit = None, maxRows = Some (roundDouble (n + 1)),
                      outFormat = Some OUT_FORMAT_ARRAY\<rparr>"
  have sel: "detectQueryType sql = SELECT"
  proof (rule ccontr)
    assume "detectQueryType sql \<noteq> SELECT"
    with run ok show False by (auto simp: executeQuery_def Let_def result_def)
  qed
  obtain rc s1 where gc: "getConnection drv cn st = (rc, s1)"
    by (cases "getConnection drv cn st")
  show ?thesis
  proof (cases rc)
    case (Inl e)
    with run ok sel gc show ?thesis
      by (auto simp: executeQuery_def Let_def queryFailed_def result_def)
  next
    case (Inr c)
    obtain re s2 where ex: "invoke (Execute c sql ?bs ?opts) (drvExecute drv c sql ?bs ?opts) s1 = (re, s2)"
      by (cases "invoke (Execute c sql ?bs ?opts) (drvExecute drv c sql ?bs ?opts) s1")
    show ?thesis
    proof (cases re)
      case (Inl e)
      with run ok sel gc Inr ex n show ?thesis
        by (auto simp: executeQuery_def Let_def queryFailed_def result_def)
    next
      case res: (Inr res)
      with run sel gc Inr ex n show ?thesis
        by (auto simp: executeQuery_def Let_def result_def nonEmptyList_def)
    qed
  qed
qed

text \<open>
  C7, as amended: for a successful \<open>executeQuery\<close> call with an effective row cap
  \<open>n\<close> from 0 to below \<open>2^53\<close>, the last driver call is the execution of the text with
  \<open>maxRows = n + 1\<close>; when the database returns more than \<open>n\<close> rows the outcome has the
  first \<open>n\<close> of them and the warning that the results were limited, otherwise it has
  all the rows and no warning; in both cases it carries the columns, the rows, their
  number as \<open>rowCount\<close>, and the elapsed time.
\<close>

theorem executeQuery_row_cap:
  assumes "executeQuery this drv cn sql cap params st = (Inr r, st')" and "success r"
    and "effectiveMaxRows this cap = n" and "0 \<le> n" and "n < 2 ^ 53"
  shows "\<exists>c s1 res rs.
           getConnection drv cn st = (Inr c, s1)
         \<and> calls st' = calls s1 @
              [Execute c sql (Some (case params of None \<Rightarrow> [] | Some b \<Rightarrow> b))
                 (Some \<lparr>autoCommit = None, maxRows = Some (n + 1), outFormat = Some OUT_FORMAT_ARRAY\<rparr>)]
         \<and> fst (drvExecute drv c sql (Some (case params of None \<Rightarrow> [] | Some b \<Rightarrow> b))
                  (Some \<lparr>autoCommit = None, maxRows = Some (n + 1), outFormat = Some OUT_FORMAT_ARRAY\<rparr>)
                  (world s1)) = Inr res
         \<and> rs = (case resultRows res of None \<Rightarrow> [] | Some x \<Rightarrow> x)
         \<and> (int (length rs) > n \<longrightarrow>
               rows r = Some (take (nat n) rs) \<and> rowCount r = Some (nat n)
               \<and> warnings r = Some [infoSign @ '' Results limited to '' @ showInt n
                                     @ '' rows. More rows available.''])
         \<and> (int (length rs) \<le> n \<longrightarrow>
               rows r = Some rs \<and> rowCount r = Some (length rs) \<and> warnings r = None)
         \<and> columns r = Some (case metaData res of None \<Rightarrow> [] | Some md \<Rightarrow> md)
         \<and> executionTime r = Some (elapsed (dateNow drv (world s1)) (dateNow drv (world st')))"
proof -
  let ?bs = "Some (case params of None \<Rightarrow> [] | Some b \<Rightarrow> b)"
  let ?opts = "Some \<lparr>autoCommit = None, maxRows = Some (n + 1), outFormat = Some OUT_FORMAT_ARRAY\<rparr>"
  from \<open>0 \<le> n\<close> \<open>n < 2 ^ 53\<close> have "roundDouble (n + 1) = n + 1"
    by (intro roundDouble_exact) simp
  with executeQuery_success [OF assms(1-3)] obtain c s1 res rs where
    gc: "getConnection drv cn st = (Inr c, s1)"
    and ex: "invoke (Execute c sql ?bs ?opts) (drvExecute drv c sql ?bs ?opts) s1 = (Inr res, st')"
    and rs: "rs = (case resultRows res of None \<Rightarrow> [] | Some x \<Rightarrow> x)"
    and rows: "rows r = Some (if int (length rs) > n then slice0 rs n else rs)"
    and count: "rowCount r = Some (length (if int (length rs) > n then slice0 rs n else rs))"
    and warn: "warnings r = (if int (length rs) > n
                          then Some [infoSign @ '' Results limited to '' @ showInt n
                                     @ '' rows. More rows available.'']
                          else None)"
    and cols: "columns r = Some (case metaData res of None \<Rightarrow> [] | Some md \<Rightarrow> md)"
    and time: "executionTime r = Some (elapsed (dateNow drv (world s1)) (dateNow drv (world st')))"
    by auto
  from ex have drv: "fst (drvExecute drv c sql ?bs ?opts (world s1)) = Inr res"
    by (auto simp: invoke_def split: prod.splits)
  from \<open>0 \<le> n\<close> have sl: "slice0 rs n = take (nat n) rs"
    by (simp add: slice0_def)
  have more: "rows r = Some (take (nat n) rs) \<and> rowCount r = Some (nat n)
               \<and> warnings r = Some [infoSign @ '' Results limited to '' @ showInt n
                                     @ '' rows. More rows available.'']"
    if "int (length rs) > n"
    using that rows count warn sl \<open>0 \<le> n\<close> by (simp add: min_def)
  have all: "rows r = Some rs \<and> rowCount r = Some (length rs) \<and> warnings r = None"
    if "int (length rs) \<le> n"
    using that rows count warn by simp
  from gc invoke_calls [OF ex] drv rs more all cols time show ?thesis by blast
qed

theorem executeQuery_row_cap_witness:
  "executeQuery exampleExecutor exampleDriver ''dev'' ''SELECT id FROM t'' None None exampleManager
     = (Inr exampleOutcome,
        snd (executeQuery exampleExecutor exampleDriver ''dev'' ''SELECT id FROM t'' None None exampleManager))
   \<and> success exampleOutcome
   \<and> effectiveMaxRows exampleExecutor None = 2
   \<and> (\<exists>c s1 res rs.
           getConnection exampleDriver ''dev'' exampleManager = (Inr c, s1)
         \<and> calls (snd (executeQuery exampleExecutor exampleDriver ''dev'' ''SELECT id FROM t'' None None exampleManager))
             = calls s1 @
              [Execute c ''SELECT id FROM t'' (Some (case None of None \<Rightarrow> [] | Some b \<Rightarrow> b))
                 (Some \<lparr>autoCommit = None, maxRows = Some (2 + 1), outFormat = Some OUT_FORMAT_ARRAY\<rparr>)]
         \<and> fst (drvExecute exampleDriver c ''SELECT id FROM t'' (Some (case None of None \<Rightarrow> [] | Some b \<Rightarrow> b))
                  (Some \<lparr>autoCommit = None, maxRows = Some (2 + 1), outFormat = Some OUT_FORMAT_ARRAY\<rparr>)
                  (world s1)) = Inr res
         \<and> rs = (case resultRows res of None \<Rightarrow> [] | Some x \<Rightarrow> x)
         \<and> (int (length rs) > 2 \<longrightarrow>
               rows exampleOutcome = Some (take (nat 2) rs) \<and> rowCount exampleOutcome = Some (nat 2)
               \<and> warnings exampleOutcome = Some [infoSign @ '' Results limited to '' @ showInt 2
                                     @ '' rows. More rows available.''])
         \<and> (int (length rs) \<le> 2 \<longrightarrow>
               rows exampleOutcome = Some rs \<and> rowCount exampleOutcome = Some (length rs)
               \<and> warnings exampleOutcome = None)
         \<and> columns exampleOutcome = Some (case metaData res of None \<Rightarrow> [] | Some md \<Rightarrow> md)
         \<and> executionTime exampleOutcome = Some (elapsed (dateNow exampleDriver (world s1))
              (dateNow exampleDriver (world (snd (executeQuery exampleExecutor exampleDriver ''dev''
                 ''SELECT id FROM t'' None None exampleManager))))))"
proof -
  have "fst (executeQuery exampleExecutor exampleDriver ''dev'' ''SELECT id FROM t'' None None exampleManager)
      = Inr exampleOutcome"
    by code_simp
  then have h1: "executeQuery exampleExecutor exampleDriver ''dev'' ''SELECT id FROM t'' None None exampleManager
     = (Inr exampleOutcome,
        snd (executeQuery exampleExecutor exampleDriver ''dev'' ''SELECT id FROM t'' None None exampleManager))"
    by (simp add: prod_eq_iff)
  have h2: "success exampleOutcome" by code_simp
  have h3: "effectiveMaxRows exampleExecutor None = 2" by code_simp
  have h4: "(0::int) \<le> 2" by simp
  have h5: "(2::int) < 2 ^ 53" by simp
  from executeQuery_row_cap [OF h1 h2 h3 h4 h5] h1 h2 h3 show ?thesis by blast
qed

text \<open>
  Without the bounds on the cap the statement fails, at both ends. A caller's cap of
  \<open>-1\<close> is truthy and kept; the text runs with \<open>maxRows = 0\<close>, the database returns
  three rows, and the successful outcome has two of them (\<open>slice(0, -1)\<close> drops the
  last row), not \<open>-1\<close>. And with a cap of \<open>2^53\<close> the sum \<open>maxRows + 1\<close> is the double
  \<open>2^53\<close> again: the text runs with a limit of \<open>n\<close> rows, not \<open>n + 1\<close>.
\<close>

theorem executeQuery_row_cap_counterexample:
  "effectiveMaxRows exampleExecutor (Some (- 1)) = - 1
   \<and> fst (drvExecute exampleDriver 7 ''SELECT id FROM t'' (Some [])
            (Some \<lparr>autoCommit = None, maxRows = Some 0, outFormat = Some OUT_FORMAT_ARRAY\<rparr>) 20)
       = Inr exampleResult
   \<and> resultRows exampleResult = Some [[JNum 1], [JNum 2], [JNum 3]]
   \<and> fst (executeQuery exampleExecutor exampleDriver ''dev'' ''SELECT id FROM t'' (Some (- 1)) None
            exampleManager) = Inr negativeCapOutcome
   \<and> success negativeCapOutcome
   \<and> rows negativeCapOutcome = Some [[JNum 1], [JNum 2]]
   \<and> calls (snd (executeQuery exampleExecutor exampleDriver ''dev'' ''SELECT id FROM t'' (Some (- 1)) None
                   exampleManager))
       = [GetConnection ''scott'' ''tiger'' ''db:1521/orcl'',
          Execute 7 ''SELECT id FROM t'' (Some [])
            (Some \<lparr>autoCommit = None, maxRows = Some 0, outFormat = Some OUT_FORMAT_ARRAY\<rparr>)]
   \<and> effectiveMaxRows exampleExecutor (Some 9007199254740992) = 9007199254740992
   \<and> (9007199254740992 :: int) = 2 ^ 53
   \<and> fst (executeQuery exampleExecutor exampleDriver ''dev'' ''SELECT id FROM t''
            (Some 9007199254740992) None exampleManager) = Inr largeCapOutcome
   \<and> success largeCapOutcome
   \<and> calls (snd (executeQuery exampleExecutor exampleDriver ''dev'' ''SELECT id FROM t''
                   (Some 9007199254740992) None exampleManager))
       = [GetConnection ''scott'' ''tiger'' ''db:1521/orcl'',
          Execute 7 ''SELECT id FROM t'' (Some [])
            (Some \<lparr>autoCommit = None, maxRows = Some 9007199254740992,
                   outFormat = Some OUT_FORMAT_ARRAY\<rparr>)]"
  by code_simp

text \<open>
  C10, as amended: a caller's row cap of 0, like an absent one, is replaced by the
  default row cap of the executor: \<open>executeQuery\<close> with either behaves as
  \<open>executeQuery\<close> with the default as the cap. So when the default is not zero, no cap
  a caller passes makes the effective cap zero.
\<close>

theorem executeQuery_falsy_cap:
  "executeQuery this drv cn sql (Some 0) params st
     = executeQuery this drv cn sql (Some (executorDefaultMaxRows this)) params st
   \<and> executeQuery this drv cn sql None params st
     = executeQuery this drv cn sql (Some (executorDefaultMaxRows this)) params st
   \<and> effectiveMaxRows this (Some 0) = executorDefaultMaxRows this
   \<and> effectiveMaxRows this None = executorDefaultMaxRows this
   \<and> (executorDefaultMaxRows this \<noteq> 0 \<longrightarrow> effectiveMaxRows this cap \<noteq> 0)"
proof -
  have e1: "effectiveMaxRows this (Some 0) = effectiveMaxRows this (Some (executorDefaultMaxRows this))"
    and e2: "effectiveMaxRows this None = effectiveMaxRows this (Some (executorDefaultMaxRows this))"
    and e3: "effectiveMaxRows this (Some (executorDefaultMaxRows this)) = executorDefaultMaxRows this"
    by (simp_all add: effectiveMaxRows_def)
  have "executeQuery this drv cn sql (Some 0) params st
     = executeQuery this drv cn sql (Some (executorDefaultMaxRows this)) params st"
    by (simp only: executeQuery_def e1)
  moreover have "executeQuery this drv cn sql None params st
     = executeQuery this drv cn sql (Some (executorDefaultMaxRows this)) params st"
    by (simp only: executeQuery_def e2)
  moreover have "executorDefaultMaxRows this \<noteq> 0 \<longrightarrow> effectiveMaxRows this cap \<noteq> 0"
    by (cases cap) (simp_all add: effectiveMaxRows_def)
  ultimately show ?thesis using e1 e2 e3 by simp
qed

theorem executeQuery_falsy_cap_witness:
  "executorDefaultMaxRows exampleExecutor \<noteq> 0
   \<and> effectiveMaxRows exampleExecutor (Some 0) = 2
   \<and> effectiveMaxRows exampleExecutor (Some 0) \<noteq> 0
   \<and> executeQuery exampleExecutor exampleDriver ''dev'' ''SELECT id FROM t'' (Some 0) None exampleManager
     = executeQuery exampleExecutor exampleDriver ''dev'' ''SELECT id FROM t'' (Some 2) None exampleManager"
proof -
  have h1: "executorDefaultMaxRows exampleExecutor = 2" by code_simp
  from h1 executeQuery_falsy_cap [of exampleExecutor exampleDriver "''dev''" "''SELECT id FROM t''"
      None exampleManager "Some 0"]
  show ?thesis by simp
qed

text \<open>
  With a default row cap of 0 the caller's 0 is replaced by 0: the text runs with
  \<open>maxRows = 1\<close> and the outcome is cut to no rows, a zero-row limit.
\<close>

theorem executeQuery_falsy_cap_counterexample:
  "executorDefaultMaxRows zeroDefaultExecutor = 0
   \<and> effectiveMaxRows zeroDefaultExecutor (Some 0) = 0
   \<and> fst (executeQuery zeroDefaultExecutor exampleDriver ''dev'' ''SELECT id FROM t'' (Some 0) None
            zeroDefaultManager) = Inr zeroCapOutcome
   \<and> success zeroCapOutcome
   \<and> rows zeroCapOutcome = Some []
   \<and> calls (snd (executeQuery zeroDefaultExecutor exampleDriver ''dev'' ''SELECT id FROM t'' (Some 0) None
                   zeroDefaultManager))
       = [GetConnection ''scott'' ''tiger'' ''db:1521/orcl'',
          Execute 7 ''SELECT id FROM t'' (Some [])
            (Some \<lparr>autoCommit = None, maxRows = Some 1, outFormat = Some OUT_FORMAT_ARRAY\<rparr>)]"
  by code_simp

section \<open>The severity gate of the write entry points\<close>
















end
